theory Spec2Isabelle
  imports Main
begin

section \<open>Position resolution in a parameter-values document\<close>

subsection \<open>Spans and named values\<close>

text \<open>
  A span of the Language module: a start offset and a length over character offsets.
  The field \<open>length\<close> of the source is called \<open>spanLength\<close> here, since \<open>length\<close> is
  the list function of HOL. Offsets are JavaScript numbers holding integers.
\<close>

record Span =
  startIndex :: int
  spanLength :: int

definition afterEndIndex :: "Span \<Rightarrow> int" where
  "afterEndIndex s = startIndex s + spanLength s"

text \<open>
  Modelled from the spec: \<open>Span.contains(index, Contains.extended)\<close> of the Language
  module, which is not among the sources. The spec describes a span as the half-open
  interval from \<open>start\<close> to \<open>start + length\<close> and extended containment as membership
  inclusive of both edges.
\<close>

definition contains_extended :: "Span \<Rightarrow> int \<Rightarrow> bool" where
  "contains_extended s i \<longleftrightarrow> startIndex s \<le> i \<and> i \<le> afterEndIndex s"

text \<open>
  A named value (a JSON string literal used as a name): the raw span with its quotes, the
  span of the content only, and the content. The three are read by
  \<open>getReferenceSiteInfo\<close> as \<open>nameValue.span\<close>, \<open>nameValue.unquotedSpan\<close> and
  \<open>nameValue.unquotedValue\<close>.
\<close>

record StringValue =
  span :: Span
  unquotedSpan :: Span
  unquotedValue :: string

text \<open>
  Modelled from the spec: the JSON string value of a quoted name (the JSON module is not
  among the sources). The raw span covers the literal with both quote characters; the
  unquoted span is the raw span with the surrounding quote characters stripped.
\<close>

definition quotedName :: "int \<Rightarrow> string \<Rightarrow> StringValue" where
  "quotedName start text =
     \<lparr> span = \<lparr> startIndex = start, spanLength = int (length text) + 2 \<rparr>,
       unquotedSpan = \<lparr> startIndex = start + 1, spanLength = int (length text) \<rparr>,
       unquotedValue = text \<rparr>"

text \<open>
  A parameter value definition owns the name written in the values file. Its assigned
  value is not read by the functions modelled here and is left out.
\<close>

record ParameterValueDefinition =
  nameValue :: StringValue

subsection \<open>The documents\<close>

text \<open>
  The template's scope and the parameter-values document are read-only collaborators:
  the scope answers \<open>getParameterDefinition\<close> by name, the document lists its parameter
  value definitions in declared order and answers \<open>findReferencesToDefinition\<close>. The
  type \<open>'d\<close> is the type of parameter definitions. A reference list is the list of the
  spans of the references it holds.
\<close>

record 'd TemplateScope =
  getParameterDefinition :: "string \<Rightarrow> 'd option"

record 'd DeploymentTemplate =
  topLevelScope :: "'d TemplateScope"

type_synonym ReferenceList = "Span list"

record 'd DeploymentParameters =
  parameterValueDefinitions :: "ParameterValueDefinition list"
  findReferencesToDefinition :: "'d \<Rightarrow> ReferenceList"

datatype ReferenceSiteKind = definitionSite | referenceSite

text \<open>
  The reference site record \<open>IReferenceSite\<close>. The field \<open>definition\<close> of the source is
  called \<open>siteDefinition\<close> here.
\<close>

record 'd IReferenceSite =
  referenceKind :: ReferenceSiteKind
  unquotedReferenceSpan :: Span
  referenceDocument :: "'d DeploymentParameters"
  siteDefinition :: 'd
  definitionDocument :: "'d DeploymentTemplate"

text \<open>
  The state of a \<open>ParametersPositionContext\<close> after construction: the document, the
  associated template (absent when none is linked) and the resolved character offset.
\<close>

record 'd ParametersPositionContext =
  document :: "'d DeploymentParameters"
  associatedTemplate :: "'d DeploymentTemplate option"
  documentCharacterIndex :: int

subsection \<open>getReferenceSiteInfo and getReferencesCore\<close>

text \<open>
  The \<open>for\<close> loop of \<open>getReferenceSiteInfo\<close> over the parameter value definitions. The
  first definition whose name span contains the offset ends the loop: with the site when
  the template has a definition of that name, and by \<open>break\<close> (so with absent) when not.
\<close>

fun scanParameterValues ::
  "'d ParametersPositionContext \<Rightarrow> 'd DeploymentTemplate \<Rightarrow> ParameterValueDefinition list
     \<Rightarrow> 'd IReferenceSite option" where
  "scanParameterValues ctx tpl [] = None"
| "scanParameterValues ctx tpl (paramValue # rest) =
     (if contains_extended (span (nameValue paramValue)) (documentCharacterIndex ctx) then
        (case getParameterDefinition (topLevelScope tpl) (unquotedValue (nameValue paramValue)) of
           Some paramDef \<Rightarrow>
             Some \<lparr> referenceKind = referenceSite,
                    unquotedReferenceSpan = unquotedSpan (nameValue paramValue),
                    referenceDocument = document ctx,
                    siteDefinition = paramDef,
                    definitionDocument = tpl \<rparr>
         | None \<Rightarrow> None)
      else scanParameterValues ctx tpl rest)"

definition getReferenceSiteInfo ::
  "bool \<Rightarrow> 'd ParametersPositionContext \<Rightarrow> 'd IReferenceSite option" where
  "getReferenceSiteInfo includeDefinition ctx =
     (case associatedTemplate ctx of
        None \<Rightarrow> None
      | Some tpl \<Rightarrow> scanParameterValues ctx tpl (parameterValueDefinitions (document ctx)))"

definition getReferencesCore :: "'d ParametersPositionContext \<Rightarrow> ReferenceList option" where
  "getReferencesCore ctx =
     (case getReferenceSiteInfo False ctx of
        Some refInfo \<Rightarrow> Some (findReferencesToDefinition (document ctx) (siteDefinition refInfo))
      | None \<Rightarrow> None)"

text \<open>
  Modelled from the spec: \<open>DeploymentParameters.findReferencesToDefinition\<close> (the
  document module is not among the sources). The spec has the document find all references
  to the resolved definition, and a reference in a parameter-values document is a
  parameter name that the associated template's top-level scope resolves to a definition.
  The list holds the unquoted span of every parameter name of the document that resolves to
  the given definition, in declared order.
\<close>

definition referencesToDefinition ::
  "'d DeploymentTemplate \<Rightarrow> ParameterValueDefinition list \<Rightarrow> 'd \<Rightarrow> ReferenceList" where
  "referencesToDefinition tpl defs d =
     map (\<lambda>pv. unquotedSpan (nameValue pv))
       (filter (\<lambda>pv. getParameterDefinition (topLevelScope tpl) (unquotedValue (nameValue pv)) = Some d)
          defs)"

section \<open>The snippet catalogue\<close>

subsection \<open>Snippets and their conversion\<close>

text \<open>
  A record of the snippet file (\<open>ISnippetDefinitionFromFile\<close>) and the internal snippet
  (\<open>ISnippetInternal\<close>). The fields of the file record carry the prefix \<open>file\<close> to keep
  them apart from those of the internal snippet; the field \<open>context\<close> is called
  \<open>fileContext\<close> and \<open>snippetContext\<close>. The context of a file record may be missing
  (\<open>convertSnippet\<close> tests it against \<open>undefined\<close>), so it is optional. A snippet
  context is a string; the known contexts are three such strings. Strings are HOL
  strings, one character for each character of the source string.
\<close>

record ISnippetDefinitionFromFile =
  filePrefix :: string
  fileBody :: "string list"
  fileDescription :: string
  fileContext :: "string option"

record ISnippetInternal =
  name :: string
  prefix :: string
  insertText :: string
  description :: string
  snippetContext :: "string option"

definition KnownSnippetContexts_empty :: string where
  "KnownSnippetContexts_empty = ''empty''"

definition KnownSnippetContexts_resources :: string where
  "KnownSnippetContexts_resources = ''resources''"

definition KnownSnippetContexts_parameterValues :: string where
  "KnownSnippetContexts_parameterValues = ''parameterValues''"

definition doesSnippetSupportContext :: "ISnippetInternal \<Rightarrow> string \<Rightarrow> bool" where
  "doesSnippetSupportContext snippet contextTag \<longleftrightarrow> snippetContext snippet = Some contextTag"

text \<open>The double quote character, and \<open>String.prototype.startsWith\<close>.\<close>

definition dq :: string where
  "dq = [CHR 0x22]"

definition startsWith :: "string \<Rightarrow> string \<Rightarrow> bool" where
  "startsWith s p \<longleftrightarrow> take (length p) s = p"

text \<open>\<open>Array.prototype.join\<close> with the newline character as separator.\<close>

fun joinLines :: "string list \<Rightarrow> string" where
  "joinLines [] = []"
| "joinLines [l] = l"
| "joinLines (l # ls) = l @ [CHR 0x0A] @ joinLines ls"

text \<open>
  The regular expression of \<open>convertSnippet\<close>: the quoted word apiVersion, any number
  of white space characters, a colon, anywhere in the line. The white space class
  holds the characters of the class that a HOL character can be: tab, line feed,
  vertical tab, form feed, carriage return, space and the no-break space.
\<close>

definition isWhiteSpace :: "char \<Rightarrow> bool" where
  "isWhiteSpace c \<longleftrightarrow>
     c = CHR 0x09 \<or> c = CHR 0x0A \<or> c = CHR 0x0B \<or> c = CHR 0x0C \<or> c = CHR 0x0D \<or> c = CHR 0x20 \<or>
     c = CHR 0xA0"

definition apiVersionWord :: string where
  "apiVersionWord = dq @ ''apiVersion'' @ dq"

definition matchesApiVersionAt :: "string \<Rightarrow> bool" where
  "matchesApiVersionAt s \<longleftrightarrow>
     take (length apiVersionWord) s = apiVersionWord \<and>
     (case dropWhile isWhiteSpace (drop (length apiVersionWord) s) of
        [] \<Rightarrow> False
      | c # rest \<Rightarrow> c = CHR 0x3A)"

fun matchesApiVersion :: "string \<Rightarrow> bool" where
  "matchesApiVersion [] = False"
| "matchesApiVersion (c # cs) \<longleftrightarrow> matchesApiVersionAt (c # cs) \<or> matchesApiVersion cs"

text \<open>
  The warnings \<open>convertSnippet\<close> shows through \<open>window.showWarningMessage\<close>, each with
  the snippet name it is about. Showing a warning changes nothing of the catalogue, so
  \<open>convertSnippet\<close> returns the snippet together with the warnings it showed, in order.
\<close>

datatype Warning =
  NoContextSpecified string
  | ResourcesContextButNoResource string
  | ResourceOutsideResourcesContext string

definition convertSnippet ::
  "string \<Rightarrow> ISnippetDefinitionFromFile \<Rightarrow> ISnippetInternal \<times> Warning list" where
  "convertSnippet snippetName snippetFromFile =
     (let contextTag = fileContext snippetFromFile;
          shown1 = (if contextTag = None then [NoContextSpecified snippetName] else []);
          body = joinLines (fileBody snippetFromFile);
          snippet = \<lparr> name = snippetName,
                      prefix = filePrefix snippetFromFile,
                      insertText = body,
                      description = fileDescription snippetFromFile,
                      snippetContext = contextTag \<rparr>;
          looksLikeResource = list_ex matchesApiVersion (fileBody snippetFromFile);
          isResource = doesSnippetSupportContext snippet KnownSnippetContexts_resources;
          shown2 = (if isResource then
                      (if \<not> looksLikeResource then [ResourcesContextButNoResource snippetName]
                       else [])
                    else
                      (if looksLikeResource then [ResourceOutsideResourcesContext snippetName]
                       else []))
      in (snippet, shown1 @ shown2))"

subsection \<open>Loading the catalogue\<close>

text \<open>
  The parsed snippet file is a JavaScript object: its own property names in enumeration
  order, each with its record. It is represented by an association list whose keys are
  distinct. The catalogue is a JavaScript \<open>Map\<close>, an association list in insertion
  order; \<open>mapSet\<close> is \<open>Map.prototype.set\<close>, which replaces the value of a key that is
  present and appends a new key at the end.
\<close>

type_synonym SnippetsFile = "(string \<times> ISnippetDefinitionFromFile) list"

type_synonym SnippetMap = "(string \<times> ISnippetInternal) list"

definition getOwnPropertyNames :: "SnippetsFile \<Rightarrow> string list" where
  "getOwnPropertyNames snippets = map fst snippets"

fun mapSet :: "SnippetMap \<Rightarrow> string \<Rightarrow> ISnippetInternal \<Rightarrow> SnippetMap" where
  "mapSet [] k v = [(k, v)]"
| "mapSet ((k', v') # m) k v = (if k' = k then (k, v) # m else (k', v') # mapSet m k v)"

text \<open>
  The \<open>for\<close> loop of the loader over the property names that passed the filter. A name
  that is no property of the object cannot occur there; the model skips it.
\<close>

fun buildMap :: "SnippetsFile \<Rightarrow> string list \<Rightarrow> SnippetMap \<Rightarrow> SnippetMap" where
  "buildMap snippets [] m = m"
| "buildMap snippets (n # names) m =
     (case map_of snippets n of
        Some snippetFromFile \<Rightarrow>
          buildMap snippets names (mapSet m n (fst (convertSnippet n snippetFromFile)))
      | None \<Rightarrow> buildMap snippets names m)"

definition loadMap :: "SnippetsFile \<Rightarrow> SnippetMap" where
  "loadMap snippets =
     buildMap snippets (filter (\<lambda>n. \<not> startsWith n ''$'') (getOwnPropertyNames snippets)) []"

text \<open>
  The collaborators of the loader, outside the sources: the file reader, the comment
  stripper and the JSON parser, and the extension's name. A read or a parse can fail.
  The outcome of a read depends on when it happens: \<open>readUtf8FileWithBom w n path\<close> is
  the outcome of the read of \<open>path\<close> that is issued as read number \<open>n\<close>.
\<close>

datatype error = ReadFailed | ParseFailed

record World =
  readUtf8FileWithBom :: "nat \<Rightarrow> string \<Rightarrow> error + string"
  stripJsonComments :: "string \<Rightarrow> string"
  jsonParse :: "string \<Rightarrow> error + SnippetsFile"
  extensionName :: string

text \<open>
  The snippet manager: the path of the snippet file, the slot of the cached promise
  \<open>_snippetMap\<close>, and the number of file reads issued so far. A promise of the snippet
  map is identified by the number of the file read its loader issued.
\<close>

record SnippetManager =
  snippetPath :: string
  snippetMap :: "nat option"
  fileReads :: nat

text \<open>
  The loader passed to the cache. Calling it issues the file read and returns the
  promise (\<open>loaderStart\<close>); the promise settles to \<open>loaderResult\<close>: the failure of the
  read or of the parse, or the map built from the parsed object.
\<close>

definition loaderStart :: "SnippetManager \<Rightarrow> nat \<times> SnippetManager" where
  "loaderStart mgr = (fileReads mgr, mgr\<lparr> fileReads := Suc (fileReads mgr) \<rparr>)"

definition loaderResult :: "World \<Rightarrow> string \<Rightarrow> nat \<Rightarrow> error + SnippetMap" where
  "loaderResult w path p =
     (case readUtf8FileWithBom w p path of
        Inl e \<Rightarrow> Inl e
      | Inr content \<Rightarrow>
          (case jsonParse w (stripJsonComments w content) of
             Inl e \<Rightarrow> Inl e
           | Inr snippets \<Rightarrow> Inr (loadMap snippets)))"

text \<open>
  Modelled from the spec: \<open>CachedPromise.getOrCachePromise\<close> (the CachedPromise module
  is not among the sources). The spec asks for a single-flight memoized future: a query
  that finds a promise in the slot awaits that promise, settled or not; a query that
  finds the slot empty calls the loader once and stores the promise it returns.
\<close>

definition getOrCachePromise ::
  "(SnippetManager \<Rightarrow> nat \<times> SnippetManager) \<Rightarrow> SnippetManager \<Rightarrow> nat \<times> SnippetManager" where
  "getOrCachePromise createPromise mgr =
     (case snippetMap mgr of
        Some p \<Rightarrow> (p, mgr)
      | None \<Rightarrow> (let (p, mgr') = createPromise mgr in (p, mgr'\<lparr> snippetMap := Some p \<rparr>)))"

text \<open>
  Modelled from the spec: what the cache does when a promise settles (the CachedPromise
  module is not among the sources). The spec asks that a failed load clears the
  memoization: when the promise in the slot is rejected, the slot is emptied.
\<close>

definition promiseSettled :: "bool \<Rightarrow> nat \<Rightarrow> SnippetManager \<Rightarrow> SnippetManager" where
  "promiseSettled rejected p mgr =
     (if rejected \<and> snippetMap mgr = Some p then mgr\<lparr> snippetMap := None \<rparr> else mgr)"

text \<open>
  \<open>getMap\<close>: the call of \<open>getOrCachePromise\<close> with the loader, and the \<open>await\<close> of the
  promise it returns.
\<close>

definition awaitSnippetMap ::
  "World \<Rightarrow> nat \<Rightarrow> SnippetManager \<Rightarrow> (error + SnippetMap) \<times> SnippetManager" where
  "awaitSnippetMap w p mgr =
     (let r = loaderResult w (snippetPath mgr) p in (r, promiseSettled (isl r) p mgr))"

definition getMap :: "World \<Rightarrow> SnippetManager \<Rightarrow> (error + SnippetMap) \<times> SnippetManager" where
  "getMap w mgr = (let (p, mgr') = getOrCachePromise loaderStart mgr in awaitSnippetMap w p mgr')"

subsection \<open>The queries\<close>

definition getSnippets ::
  "World \<Rightarrow> string \<Rightarrow> SnippetManager \<Rightarrow> (error + ISnippetInternal list) \<times> SnippetManager" where
  "getSnippets w contextTag mgr =
     (case getMap w mgr of
        (Inl e, mgr') \<Rightarrow> (Inl e, mgr')
      | (Inr m, mgr') \<Rightarrow>
          (Inr (filter (\<lambda>s. doesSnippetSupportContext s contextTag) (map snd m)), mgr'))"

text \<open>
  Completion items. Of the kinds and priorities of the Completion module (not among the
  sources) the snippet manager names \<open>Snippet\<close> and \<open>low\<close>; the others are one
  constructor each. The fields \<open>insertText\<close> and \<open>span\<close> of an item are called
  \<open>itemInsertText\<close> and \<open>itemSpan\<close>.
\<close>

datatype CompletionKind = Snippet | otherKind

datatype CompletionPriority = low | otherPriority

record CompletionItem =
  label :: string
  snippetName :: string
  detail :: string
  itemInsertText :: string
  itemSpan :: Span
  kind :: CompletionKind
  priority :: CompletionPriority

text \<open>The \<open>for\<close> loop of \<open>getSnippetsAsCompletionItems\<close> over the entries of the map.\<close>

fun snippetItems ::
  "World \<Rightarrow> string \<Rightarrow> Span \<Rightarrow> bool \<Rightarrow> SnippetMap \<Rightarrow> CompletionItem list" where
  "snippetItems w contextTag sp addDoubleQuotes [] = []"
| "snippetItems w contextTag sp addDoubleQuotes ((entryName, snippet) # entries) =
     (if doesSnippetSupportContext snippet contextTag then
        (let detailText = description snippet @ '' ('' @ extensionName w @ '')'';
             label0 = prefix snippet;
             label1 = (if addDoubleQuotes \<and> \<not> startsWith label0 dq then dq @ label0 @ dq
                       else label0)
         in \<lparr> label = ''{'' @ label1 @ ''}'',
              snippetName = entryName,
              detail = detailText,
              itemInsertText = insertText snippet,
              itemSpan = sp,
              kind = Snippet,
              priority = low \<rparr>
            # snippetItems w contextTag sp addDoubleQuotes entries)
      else snippetItems w contextTag sp addDoubleQuotes entries)"

text \<open>
  Modelled from the spec: \<open>callWithTelemetryAndErrorHandling\<close> of the extension UI
  library (not among the sources). The spec says the operation is wrapped so that any
  internal failure does not propagate: the wrapper runs the callback and answers
  \<open>undefined\<close> when the callback fails, and the callback's value when it does not.
\<close>

definition callWithTelemetryAndErrorHandling ::
  "('s \<Rightarrow> (error + 'a) \<times> 's) \<Rightarrow> 's \<Rightarrow> 'a option \<times> 's" where
  "callWithTelemetryAndErrorHandling callback s =
     (case callback s of
        (Inl e, s') \<Rightarrow> (None, s')
      | (Inr v, s') \<Rightarrow> (Some v, s'))"

text \<open>
  The callback of \<open>getSnippetsAsCompletionItems\<close>: it fails when \<open>getMap\<close> fails. The
  trigger character is accepted and not used. The telemetry flag the callback sets on its
  action context has no part in the result and is left out.
\<close>

definition completionItemsCallback ::
  "World \<Rightarrow> string \<Rightarrow> Span \<Rightarrow> string option \<Rightarrow> bool \<Rightarrow> SnippetManager
     \<Rightarrow> (error + CompletionItem list) \<times> SnippetManager" where
  "completionItemsCallback w contextTag sp triggerCharacter addDoubleQuotes mgr =
     (case getMap w mgr of
        (Inl e, mgr') \<Rightarrow> (Inl e, mgr')
      | (Inr m, mgr') \<Rightarrow> (Inr (snippetItems w contextTag sp addDoubleQuotes m), mgr'))"

definition getSnippetsAsCompletionItems ::
  "World \<Rightarrow> string \<Rightarrow> Span \<Rightarrow> string option \<Rightarrow> bool \<Rightarrow> SnippetManager
     \<Rightarrow> CompletionItem list \<times> SnippetManager" where
  "getSnippetsAsCompletionItems w contextTag sp triggerCharacter addDoubleQuotes mgr =
     (case callWithTelemetryAndErrorHandling
             (completionItemsCallback w contextTag sp triggerCharacter addDoubleQuotes) mgr of
        (Some items, mgr') \<Rightarrow> (items, mgr')
      | (None, mgr') \<Rightarrow> ([], mgr'))"

subsection \<open>Two queries in a row\<close>

text \<open>
  A query of the catalogue, and the state of the manager after the query has run to its
  end: both queries reach the snippet file through \<open>getMap\<close> only.
\<close>

datatype Query =
  GetSnippets string
  | GetSnippetsAsCompletionItems string Span "string option" bool

definition queryState :: "World \<Rightarrow> Query \<Rightarrow> SnippetManager \<Rightarrow> SnippetManager" where
  "queryState w q mgr =
     (case q of
        GetSnippets contextTag \<Rightarrow> snd (getSnippets w contextTag mgr)
      | GetSnippetsAsCompletionItems contextTag sp triggerCharacter addDoubleQuotes \<Rightarrow>
          snd (getSnippetsAsCompletionItems w contextTag sp triggerCharacter addDoubleQuotes mgr))"

section \<open>Example documents and catalogues\<close>

text \<open>
  A template that defines the parameter \<open>location\<close>, and two parameter-values
  documents: one with the names \<open>orphan\<close> at offset 20 and \<open>location\<close> at offset 50,
  and one where the second name starts where the first one ends. Each document finds the
  references to a definition among its own names, as resolved by that template.
\<close>

definition exampleScope :: "string TemplateScope" where
  "exampleScope =
     \<lparr> getParameterDefinition = (\<lambda>n. if n = ''location'' then Some ''location: string'' else None) \<rparr>"

definition exampleTemplate :: "string DeploymentTemplate" where
  "exampleTemplate = \<lparr> topLevelScope = exampleScope \<rparr>"

definition exampleParameters :: "string DeploymentParameters" where
  "exampleParameters =
     \<lparr> parameterValueDefinitions =
         [\<lparr> nameValue = quotedName 20 ''orphan'' \<rparr>, \<lparr> nameValue = quotedName 50 ''location'' \<rparr>],
       findReferencesToDefinition =
         referencesToDefinition exampleTemplate
           [\<lparr> nameValue = quotedName 20 ''orphan'' \<rparr>, \<lparr> nameValue = quotedName 50 ''location'' \<rparr>] \<rparr>"

definition touchingParameters :: "string DeploymentParameters" where
  "touchingParameters =
     \<lparr> parameterValueDefinitions =
         [\<lparr> nameValue = quotedName 20 ''orphan'' \<rparr>, \<lparr> nameValue = quotedName 28 ''location'' \<rparr>],
       findReferencesToDefinition =
         referencesToDefinition exampleTemplate
           [\<lparr> nameValue = quotedName 20 ''orphan'' \<rparr>, \<lparr> nameValue = quotedName 28 ''location'' \<rparr>] \<rparr>"

definition exampleContext :: "string DeploymentParameters \<Rightarrow> int \<Rightarrow> string ParametersPositionContext" where
  "exampleContext doc i =
     \<lparr> document = doc, associatedTemplate = Some exampleTemplate, documentCharacterIndex = i \<rparr>"

text \<open>
  The snippet file of the spec's example, with the one snippet \<open>arm-vnet\<close>; a larger
  file with a reserved key and a second snippet; a world whose first \<open>failing\<close> reads
  fail and whose parser answers the given file; and a manager that has not loaded yet.
\<close>

definition armVnetBodyLine :: string where
  "armVnetBodyLine = ''{ '' @ dq @ ''apiVersion'' @ dq @ '': '' @ dq @ ''2020-01-01'' @ dq @ '' }''"

definition armVnetFile :: SnippetsFile where
  "armVnetFile =
     [(''arm-vnet'',
       \<lparr> filePrefix = ''vnet'', fileBody = [armVnetBodyLine], fileDescription = ''VNet'',
         fileContext = Some ''resources'' \<rparr>)]"

definition armVnetSnippet :: ISnippetInternal where
  "armVnetSnippet =
     \<lparr> name = ''arm-vnet'', prefix = ''vnet'', insertText = armVnetBodyLine,
       description = ''VNet'', snippetContext = Some ''resources'' \<rparr>"

definition exampleFile :: SnippetsFile where
  "exampleFile =
     [(''$schema'',
       \<lparr> filePrefix = [], fileBody = [], fileDescription = [], fileContext = None \<rparr>),
      (''arm-vnet'',
       \<lparr> filePrefix = ''vnet'', fileBody = [armVnetBodyLine], fileDescription = ''VNet'',
         fileContext = Some ''resources'' \<rparr>),
      (''new-parameter-value'',
       \<lparr> filePrefix = dq @ ''new-value'', fileBody = [''{'', ''  null'', ''}''],
         fileDescription = ''Value'', fileContext = Some ''parameterValues'' \<rparr>)]"

definition exampleWorld :: "nat \<Rightarrow> SnippetsFile \<Rightarrow> World" where
  "exampleWorld failing file =
     \<lparr> readUtf8FileWithBom = (\<lambda>n path. if n < failing then Inl ReadFailed else Inr ''snippets''),
       stripJsonComments = (\<lambda>s. s),
       jsonParse = (\<lambda>s. Inr file),
       extensionName = ''Azure Resource Manager Tools'' \<rparr>"

definition freshManager :: SnippetManager where
  "freshManager = \<lparr> snippetPath = ''assets/armsnippets.jsonc'', snippetMap = None, fileReads = 0 \<rparr>"

section \<open>Properties of the position resolution\<close>

lemmas example_defs =
  exampleScope_def exampleTemplate_def exampleParameters_def touchingParameters_def
  exampleContext_def quotedName_def contains_extended_def afterEndIndex_def

lemma scanParameterValues_none:
  "\<forall>pv \<in> set defs. \<not> contains_extended (span (nameValue pv)) (documentCharacterIndex ctx)
   \<Longrightarrow> scanParameterValues ctx tpl defs = None"
  by (induction defs) simp_all

lemma scanParameterValues_first:
  assumes "\<forall>p \<in> set pre. \<not> contains_extended (span (nameValue p)) (documentCharacterIndex ctx)"
    and "contains_extended (span (nameValue pv)) (documentCharacterIndex ctx)"
  shows "scanParameterValues ctx tpl (pre @ pv # post) =
     (case getParameterDefinition (topLevelScope tpl) (unquotedValue (nameValue pv)) of
        None \<Rightarrow> None
      | Some paramDef \<Rightarrow>
          Some \<lparr> referenceKind = referenceSite,
                 unquotedReferenceSpan = unquotedSpan (nameValue pv),
                 referenceDocument = document ctx,
                 siteDefinition = paramDef,
                 definitionDocument = tpl \<rparr>)"
  using assms by (induction pre) simp_all

lemma scanParameterValues_some:
  "scanParameterValues ctx tpl defs = Some site \<Longrightarrow>
   \<exists>pv \<in> set defs. contains_extended (span (nameValue pv)) (documentCharacterIndex ctx)
      \<and> unquotedReferenceSpan site = unquotedSpan (nameValue pv)"
  by (induction defs) (auto split: if_splits option.splits)

lemma only_containing_is_first:
  assumes "pv \<in> set defs" and "P pv" and "\<forall>p \<in> set defs. P p \<longrightarrow> p = pv"
  shows "\<exists>pre post. defs = pre @ pv # post \<and> (\<forall>p \<in> set pre. \<not> P p)"
proof -
  from assms(1,2) have "\<exists>x \<in> set defs. P x" by blast
  from split_list_first_prop [OF this]
  obtain pre x post where s: "defs = pre @ x # post" "P x" "\<forall>y \<in> set pre. \<not> P y"
    by blast
  with assms(3) have "x = pv" by simp
  with s show ?thesis by blast
qed

text \<open>
  C1. With no associated template linked, \<open>getReferenceSiteInfo\<close> returns absent at
  every offset. At an offset outside the raw span of every parameter name it returns
  absent. At an offset contained (both boundaries included) in the raw span of a
  parameter name, where \<open>pv\<close> is the definition the scan matches (the first one in
  declared order whose name span contains the offset), it returns a site exactly when the
  template's top-level scope has a parameter definition for the unquoted name of \<open>pv\<close>:
  the site has kind reference, the unquoted span of that name, this document as reference
  document, the found definition, and the template as definition document. In
  particular this holds for a definition whose name span is the only one that contains the
  offset.
\<close>

theorem getReferenceSiteInfo_at_name:
  "(associatedTemplate ctx = None \<longrightarrow> getReferenceSiteInfo b ctx = None) \<and>
   ((\<forall>pv \<in> set (parameterValueDefinitions (document ctx)).
        \<not> contains_extended (span (nameValue pv)) (documentCharacterIndex ctx))
      \<longrightarrow> getReferenceSiteInfo b ctx = None) \<and>
   (\<forall>tpl pre pv post.
      associatedTemplate ctx = Some tpl \<and>
      parameterValueDefinitions (document ctx) = pre @ pv # post \<and>
      (\<forall>p \<in> set pre. \<not> contains_extended (span (nameValue p)) (documentCharacterIndex ctx)) \<and>
      contains_extended (span (nameValue pv)) (documentCharacterIndex ctx)
      \<longrightarrow> getReferenceSiteInfo b ctx =
            (case getParameterDefinition (topLevelScope tpl) (unquotedValue (nameValue pv)) of
               None \<Rightarrow> None
             | Some paramDef \<Rightarrow>
                 Some \<lparr> referenceKind = referenceSite,
                        unquotedReferenceSpan = unquotedSpan (nameValue pv),
                        referenceDocument = document ctx,
                        siteDefinition = paramDef,
                        definitionDocument = tpl \<rparr>)) \<and>
   (\<forall>tpl pv.
      associatedTemplate ctx = Some tpl \<and>
      pv \<in> set (parameterValueDefinitions (document ctx)) \<and>
      contains_extended (span (nameValue pv)) (documentCharacterIndex ctx) \<and>
      (\<forall>p \<in> set (parameterValueDefinitions (document ctx)).
          contains_extended (span (nameValue p)) (documentCharacterIndex ctx) \<longrightarrow> p = pv)
      \<longrightarrow> getReferenceSiteInfo b ctx =
            (case getParameterDefinition (topLevelScope tpl) (unquotedValue (nameValue pv)) of
               None \<Rightarrow> None
             | Some paramDef \<Rightarrow>
                 Some \<lparr> referenceKind = referenceSite,
                        unquotedReferenceSpan = unquotedSpan (nameValue pv),
                        referenceDocument = document ctx,
                        siteDefinition = paramDef,
                        definitionDocument = tpl \<rparr>))"
proof (intro conjI allI impI)
  assume "associatedTemplate ctx = None"
  then show "getReferenceSiteInfo b ctx = None"
    by (simp add: getReferenceSiteInfo_def)
next
  assume "\<forall>pv \<in> set (parameterValueDefinitions (document ctx)).
        \<not> contains_extended (span (nameValue pv)) (documentCharacterIndex ctx)"
  then show "getReferenceSiteInfo b ctx = None"
    by (simp add: getReferenceSiteInfo_def scanParameterValues_none split: option.split)
next
  fix tpl pre pv post
  assume h: "associatedTemplate ctx = Some tpl \<and>
      parameterValueDefinitions (document ctx) = pre @ pv # post \<and>
      (\<forall>p \<in> set pre. \<not> contains_extended (span (nameValue p)) (documentCharacterIndex ctx)) \<and>
      contains_extended (span (nameValue pv)) (documentCharacterIndex ctx)"
  then have "getReferenceSiteInfo b ctx = scanParameterValues ctx tpl (pre @ pv # post)"
    by (simp add: getReferenceSiteInfo_def)
  moreover from h have "scanParameterValues ctx tpl (pre @ pv # post) =
            (case getParameterDefinition (topLevelScope tpl) (unquotedValue (nameValue pv)) of
               None \<Rightarrow> None
             | Some paramDef \<Rightarrow>
                 Some \<lparr> referenceKind = referenceSite,
                        unquotedReferenceSpan = unquotedSpan (nameValue pv),
                        referenceDocument = document ctx,
                        siteDefinition = paramDef,
                        definitionDocument = tpl \<rparr>)"
    by (intro scanParameterValues_first) simp_all
  ultimately show "getReferenceSiteInfo b ctx =
            (case getParameterDefinition (topLevelScope tpl) (unquotedValue (nameValue pv)) of
               None \<Rightarrow> None
             | Some paramDef \<Rightarrow>
                 Some \<lparr> referenceKind = referenceSite,
                        unquotedReferenceSpan = unquotedSpan (nameValue pv),
                        referenceDocument = document ctx,
                        siteDefinition = paramDef,
                        definitionDocument = tpl \<rparr>)"
    by simp
next
  fix tpl pv
  let ?P = "\<lambda>p. contains_extended (span (nameValue p)) (documentCharacterIndex ctx)"
  assume h: "associatedTemplate ctx = Some tpl \<and>
      pv \<in> set (parameterValueDefinitions (document ctx)) \<and>
      contains_extended (span (nameValue pv)) (documentCharacterIndex ctx) \<and>
      (\<forall>p \<in> set (parameterValueDefinitions (document ctx)).
          contains_extended (span (nameValue p)) (documentCharacterIndex ctx) \<longrightarrow> p = pv)"
  then have "\<exists>pre post. parameterValueDefinitions (document ctx) = pre @ pv # post \<and>
      (\<forall>p \<in> set pre. \<not> ?P p)"
    by (intro only_containing_is_first [where P = ?P]) simp_all
  then obtain pre post where s: "parameterValueDefinitions (document ctx) = pre @ pv # post"
    and n: "\<forall>p \<in> set pre. \<not> ?P p"
    by blast
  from h s have "getReferenceSiteInfo b ctx = scanParameterValues ctx tpl (pre @ pv # post)"
    by (simp add: getReferenceSiteInfo_def)
  moreover from h n have "scanParameterValues ctx tpl (pre @ pv # post) =
            (case getParameterDefinition (topLevelScope tpl) (unquotedValue (nameValue pv)) of
               None \<Rightarrow> None
             | Some paramDef \<Rightarrow>
                 Some \<lparr> referenceKind = referenceSite,
                        unquotedReferenceSpan = unquotedSpan (nameValue pv),
                        referenceDocument = document ctx,
                        siteDefinition = paramDef,
                        definitionDocument = tpl \<rparr>)"
    by (intro scanParameterValues_first) simp_all
  ultimately show "getReferenceSiteInfo b ctx =
            (case getParameterDefinition (topLevelScope tpl) (unquotedValue (nameValue pv)) of
               None \<Rightarrow> None
             | Some paramDef \<Rightarrow>
                 Some \<lparr> referenceKind = referenceSite,
                        unquotedReferenceSpan = unquotedSpan (nameValue pv),
                        referenceDocument = document ctx,
                        siteDefinition = paramDef,
                        definitionDocument = tpl \<rparr>)"
    by simp
qed

theorem getReferenceSiteInfo_at_name_witness:
  "getReferenceSiteInfo True
      \<lparr> document = exampleParameters, associatedTemplate = None, documentCharacterIndex = 55 \<rparr> = None \<and>
   getReferenceSiteInfo True (exampleContext exampleParameters 35) = None \<and>
   getReferenceSiteInfo True (exampleContext exampleParameters 60) =
     Some \<lparr> referenceKind = referenceSite,
            unquotedReferenceSpan = \<lparr> startIndex = 51, spanLength = 8 \<rparr>,
            referenceDocument = exampleParameters,
            siteDefinition = ''location: string'',
            definitionDocument = exampleTemplate \<rparr> \<and>
   getReferenceSiteInfo True (exampleContext exampleParameters 20) = None \<and>
   getReferenceSiteInfo True (exampleContext exampleParameters 55) =
     Some \<lparr> referenceKind = referenceSite,
            unquotedReferenceSpan = \<lparr> startIndex = 51, spanLength = 8 \<rparr>,
            referenceDocument = exampleParameters,
            siteDefinition = ''location: string'',
            definitionDocument = exampleTemplate \<rparr>"
proof -
  let ?noTpl = "\<lparr> document = exampleParameters, associatedTemplate = None,
                   documentCharacterIndex = 55 \<rparr>"
  have a: "getReferenceSiteInfo True ?noTpl = None"
    using getReferenceSiteInfo_at_name [of ?noTpl True] by simp
  have b: "getReferenceSiteInfo True (exampleContext exampleParameters 35) = None"
    using getReferenceSiteInfo_at_name [of "exampleContext exampleParameters 35" True]
    by (simp add: example_defs)
  have c: "getReferenceSiteInfo True (exampleContext exampleParameters 60) =
     Some \<lparr> referenceKind = referenceSite,
            unquotedReferenceSpan = \<lparr> startIndex = 51, spanLength = 8 \<rparr>,
            referenceDocument = exampleParameters,
            siteDefinition = ''location: string'',
            definitionDocument = exampleTemplate \<rparr>"
    using getReferenceSiteInfo_at_name [of "exampleContext exampleParameters 60" True,
        THEN conjunct2, THEN conjunct2, THEN conjunct1, rule_format,
        of exampleTemplate "[\<lparr> nameValue = quotedName 20 ''orphan'' \<rparr>]"
           "\<lparr> nameValue = quotedName 50 ''location'' \<rparr>" "[]"]
    by (simp add: example_defs)
  have d: "getReferenceSiteInfo True (exampleContext exampleParameters 20) = None"
    using getReferenceSiteInfo_at_name [of "exampleContext exampleParameters 20" True,
        THEN conjunct2, THEN conjunct2, THEN conjunct1, rule_format,
        of exampleTemplate "[]" "\<lparr> nameValue = quotedName 20 ''orphan'' \<rparr>"
           "[\<lparr> nameValue = quotedName 50 ''location'' \<rparr>]"]
    by (simp add: example_defs)
  have e: "getReferenceSiteInfo True (exampleContext exampleParameters 55) =
     Some \<lparr> referenceKind = referenceSite,
            unquotedReferenceSpan = \<lparr> startIndex = 51, spanLength = 8 \<rparr>,
            referenceDocument = exampleParameters,
            siteDefinition = ''location: string'',
            definitionDocument = exampleTemplate \<rparr>"
    using getReferenceSiteInfo_at_name [of "exampleContext exampleParameters 55" True,
        THEN conjunct2, THEN conjunct2, THEN conjunct2, rule_format,
        of exampleTemplate "\<lparr> nameValue = quotedName 50 ''location'' \<rparr>"]
    by (simp add: example_defs)
  from a b c d e show ?thesis by simp
qed

text \<open>
  C7. The scan goes through the parameter value definitions in declared order and ends
  at the first one whose name span contains the offset: the definitions after it do not
  influence the result, and when the template has no definition for that first name the
  result is absent, whatever follows.
\<close>

theorem getReferenceSiteInfo_stops_at_first:
  "(\<forall>p \<in> set pre. \<not> contains_extended (span (nameValue p)) (documentCharacterIndex ctx)) \<and>
   contains_extended (span (nameValue pv)) (documentCharacterIndex ctx)
   \<longrightarrow> scanParameterValues ctx tpl (pre @ pv # post) = scanParameterValues ctx tpl (pre @ [pv]) \<and>
       (associatedTemplate ctx = Some tpl \<and>
        parameterValueDefinitions (document ctx) = pre @ pv # post \<and>
        getParameterDefinition (topLevelScope tpl) (unquotedValue (nameValue pv)) = None
        \<longrightarrow> getReferenceSiteInfo b ctx = None)"
proof (intro impI conjI)
  assume h: "(\<forall>p \<in> set pre. \<not> contains_extended (span (nameValue p)) (documentCharacterIndex ctx)) \<and>
   contains_extended (span (nameValue pv)) (documentCharacterIndex ctx)"
  then have first: "\<And>rest. scanParameterValues ctx tpl (pre @ pv # rest) =
            (case getParameterDefinition (topLevelScope tpl) (unquotedValue (nameValue pv)) of
               None \<Rightarrow> None
             | Some paramDef \<Rightarrow>
                 Some \<lparr> referenceKind = referenceSite,
                        unquotedReferenceSpan = unquotedSpan (nameValue pv),
                        referenceDocument = document ctx,
                        siteDefinition = paramDef,
                        definitionDocument = tpl \<rparr>)"
    by (intro scanParameterValues_first) simp_all
  show "scanParameterValues ctx tpl (pre @ pv # post) = scanParameterValues ctx tpl (pre @ [pv])"
    by (simp only: first)
  assume g: "associatedTemplate ctx = Some tpl \<and>
        parameterValueDefinitions (document ctx) = pre @ pv # post \<and>
        getParameterDefinition (topLevelScope tpl) (unquotedValue (nameValue pv)) = None"
  then have "getReferenceSiteInfo b ctx = scanParameterValues ctx tpl (pre @ pv # post)"
    by (simp add: getReferenceSiteInfo_def)
  with g show "getReferenceSiteInfo b ctx = None"
    by (simp add: first)
qed

theorem getReferenceSiteInfo_stops_at_first_witness:
  "contains_extended (span (quotedName 20 ''orphan'')) 28 \<and>
   contains_extended (span (quotedName 28 ''location'')) 28 \<and>
   getParameterDefinition exampleScope ''location'' = Some ''location: string'' \<and>
   scanParameterValues (exampleContext touchingParameters 28) exampleTemplate
      [\<lparr> nameValue = quotedName 20 ''orphan'' \<rparr>, \<lparr> nameValue = quotedName 28 ''location'' \<rparr>] =
   scanParameterValues (exampleContext touchingParameters 28) exampleTemplate
      [\<lparr> nameValue = quotedName 20 ''orphan'' \<rparr>] \<and>
   getReferenceSiteInfo False (exampleContext touchingParameters 28) = None"
  using getReferenceSiteInfo_stops_at_first [of "[]" "exampleContext touchingParameters 28"
      "\<lparr> nameValue = quotedName 20 ''orphan'' \<rparr>" exampleTemplate
      "[\<lparr> nameValue = quotedName 28 ''location'' \<rparr>]" False]
  by (simp add: example_defs)

text \<open>
  C9. The argument \<open>includeDefinition\<close> has no influence on the result of
  \<open>getReferenceSiteInfo\<close>: called with true and with false on the same context, it
  returns the same result.
\<close>

theorem getReferenceSiteInfo_ignores_includeDefinition:
  "getReferenceSiteInfo True ctx = getReferenceSiteInfo False ctx"
  by (simp add: getReferenceSiteInfo_def)

lemma scanParameterValues_resolves:
  "scanParameterValues ctx tpl defs = Some site \<Longrightarrow>
   \<exists>pv \<in> set defs.
      getParameterDefinition (topLevelScope tpl) (unquotedValue (nameValue pv)) =
        Some (siteDefinition site) \<and>
      unquotedReferenceSpan site = unquotedSpan (nameValue pv)"
  by (induction defs) (auto split: if_splits option.splits)

text \<open>
  C4. \<open>getReferencesCore\<close> returns absent exactly when \<open>getReferenceSiteInfo\<close> returns
  absent; otherwise it returns the list that the document's \<open>findReferencesToDefinition\<close>
  gives for the resolved definition. When the document finds the references to a
  definition among its names as the linked template resolves them, that list includes the
  span of the originating reference.
\<close>

theorem getReferencesCore_includes_origin:
  "(getReferencesCore ctx = None \<longleftrightarrow> getReferenceSiteInfo False ctx = None) \<and>
   (\<forall>site. getReferenceSiteInfo False ctx = Some site \<longrightarrow>
      getReferencesCore ctx =
        Some (findReferencesToDefinition (document ctx) (siteDefinition site))) \<and>
   (\<forall>tpl site.
      associatedTemplate ctx = Some tpl \<and>
      findReferencesToDefinition (document ctx) =
        referencesToDefinition tpl (parameterValueDefinitions (document ctx)) \<and>
      getReferenceSiteInfo False ctx = Some site
      \<longrightarrow> getReferencesCore ctx =
            Some (referencesToDefinition tpl (parameterValueDefinitions (document ctx))
                    (siteDefinition site)) \<and>
          unquotedReferenceSpan site \<in>
            set (referencesToDefinition tpl (parameterValueDefinitions (document ctx))
                   (siteDefinition site)))"
proof -
  have a: "getReferencesCore ctx = None \<longleftrightarrow> getReferenceSiteInfo False ctx = None"
    by (simp add: getReferencesCore_def split: option.split)
  have b: "\<forall>site. getReferenceSiteInfo False ctx = Some site \<longrightarrow>
      getReferencesCore ctx =
        Some (findReferencesToDefinition (document ctx) (siteDefinition site))"
    by (simp add: getReferencesCore_def)
  have c: "\<forall>tpl site.
      associatedTemplate ctx = Some tpl \<and>
      findReferencesToDefinition (document ctx) =
        referencesToDefinition tpl (parameterValueDefinitions (document ctx)) \<and>
      getReferenceSiteInfo False ctx = Some site
      \<longrightarrow> getReferencesCore ctx =
            Some (referencesToDefinition tpl (parameterValueDefinitions (document ctx))
                    (siteDefinition site)) \<and>
          unquotedReferenceSpan site \<in>
            set (referencesToDefinition tpl (parameterValueDefinitions (document ctx))
                   (siteDefinition site))"
  proof (intro allI impI)
    fix tpl site
    let ?defs = "parameterValueDefinitions (document ctx)"
    assume h: "associatedTemplate ctx = Some tpl \<and>
      findReferencesToDefinition (document ctx) = referencesToDefinition tpl ?defs \<and>
      getReferenceSiteInfo False ctx = Some site"
    then have core: "getReferencesCore ctx =
        Some (referencesToDefinition tpl ?defs (siteDefinition site))"
      by (simp add: getReferencesCore_def)
    from h have "scanParameterValues ctx tpl ?defs = Some site"
      by (auto simp: getReferenceSiteInfo_def)
    from scanParameterValues_resolves [OF this]
    obtain pv where pv: "pv \<in> set ?defs"
      "getParameterDefinition (topLevelScope tpl) (unquotedValue (nameValue pv)) =
         Some (siteDefinition site)"
      "unquotedReferenceSpan site = unquotedSpan (nameValue pv)"
      by blast
    then have "unquotedReferenceSpan site \<in>
        set (referencesToDefinition tpl ?defs (siteDefinition site))"
      by (force simp: referencesToDefinition_def)
    with core show "getReferencesCore ctx =
            Some (referencesToDefinition tpl ?defs (siteDefinition site)) \<and>
          unquotedReferenceSpan site \<in>
            set (referencesToDefinition tpl ?defs (siteDefinition site))"
      by simp
  qed
  from a b c show ?thesis by (intro conjI)
qed

theorem getReferencesCore_includes_origin_witness:
  "getReferenceSiteInfo False (exampleContext exampleParameters 35) = None \<and>
   getReferencesCore (exampleContext exampleParameters 35) = None \<and>
   getReferenceSiteInfo False (exampleContext exampleParameters 55) =
     Some \<lparr> referenceKind = referenceSite,
            unquotedReferenceSpan = \<lparr> startIndex = 51, spanLength = 8 \<rparr>,
            referenceDocument = exampleParameters,
            siteDefinition = ''location: string'',
            definitionDocument = exampleTemplate \<rparr> \<and>
   getReferencesCore (exampleContext exampleParameters 55) =
     Some [\<lparr> startIndex = 51, spanLength = 8 \<rparr>]"
proof -
  let ?ctx = "exampleContext exampleParameters 55"
  have n: "getReferenceSiteInfo False (exampleContext exampleParameters 35) = None"
    by (simp add: getReferenceSiteInfo_def example_defs)
  have s: "getReferenceSiteInfo False ?ctx =
     Some \<lparr> referenceKind = referenceSite,
            unquotedReferenceSpan = \<lparr> startIndex = 51, spanLength = 8 \<rparr>,
            referenceDocument = exampleParameters,
            siteDefinition = ''location: string'',
            definitionDocument = exampleTemplate \<rparr>"
    by (simp add: getReferenceSiteInfo_def example_defs)
  have h: "associatedTemplate ?ctx = Some exampleTemplate \<and>
      findReferencesToDefinition (document ?ctx) =
        referencesToDefinition exampleTemplate (parameterValueDefinitions (document ?ctx)) \<and>
      getReferenceSiteInfo False ?ctx =
     Some \<lparr> referenceKind = referenceSite,
            unquotedReferenceSpan = \<lparr> startIndex = 51, spanLength = 8 \<rparr>,
            referenceDocument = exampleParameters,
            siteDefinition = ''location: string'',
            definitionDocument = exampleTemplate \<rparr>"
    using s by (simp add: exampleContext_def exampleParameters_def)
  from getReferencesCore_includes_origin [of "exampleContext exampleParameters 35",
      THEN conjunct1] n
    getReferencesCore_includes_origin [of ?ctx, THEN conjunct2, THEN conjunct2, rule_format,
      OF h] s
  show ?thesis
    by (simp add: referencesToDefinition_def example_defs)
qed

text \<open>
  C10. A site returned by \<open>getReferenceSiteInfo\<close> carries the unquoted span of a name
  whose raw span contains the offset under extended containment. So for a quoted name
  that the template defines, with the cursor exactly on the opening quote or exactly on
  the end boundary of the raw span, a site is returned whose unquoted span does not contain
  the offset, not even under extended containment.
\<close>

theorem getReferenceSiteInfo_span_outside_cursor:
  "(\<forall>(ctx :: 'd ParametersPositionContext) site.
      getReferenceSiteInfo b ctx = Some site \<longrightarrow>
      (\<exists>pv \<in> set (parameterValueDefinitions (document ctx)).
          contains_extended (span (nameValue pv)) (documentCharacterIndex ctx) \<and>
          unquotedReferenceSpan site = unquotedSpan (nameValue pv))) \<and>
   (\<forall>start str (d :: 'd) refs i.
      i = start \<or> i = start + int (length str) + 2 \<longrightarrow>
      (\<exists>site.
         getReferenceSiteInfo b
           \<lparr> document = \<lparr> parameterValueDefinitions = [\<lparr> nameValue = quotedName start str \<rparr>],
                          findReferencesToDefinition = refs \<rparr>,
             associatedTemplate =
               Some \<lparr> topLevelScope =
                  \<lparr> getParameterDefinition = (\<lambda>n. if n = str then Some d else None) \<rparr> \<rparr>,
             documentCharacterIndex = i \<rparr> = Some site \<and>
         \<not> contains_extended (unquotedReferenceSpan site) i))"
proof (intro conjI allI impI)
  fix ctx :: "'d ParametersPositionContext" and site
  assume "getReferenceSiteInfo b ctx = Some site"
  then show "\<exists>pv \<in> set (parameterValueDefinitions (document ctx)).
          contains_extended (span (nameValue pv)) (documentCharacterIndex ctx) \<and>
          unquotedReferenceSpan site = unquotedSpan (nameValue pv)"
    by (auto simp: getReferenceSiteInfo_def split: option.splits
          dest: scanParameterValues_some)
next
  fix start and str :: string and d :: 'd and refs i
  assume "i = start \<or> i = start + int (length str) + 2"
  then show "\<exists>site.
         getReferenceSiteInfo b
           \<lparr> document = \<lparr> parameterValueDefinitions = [\<lparr> nameValue = quotedName start str \<rparr>],
                          findReferencesToDefinition = refs \<rparr>,
             associatedTemplate =
               Some \<lparr> topLevelScope =
                  \<lparr> getParameterDefinition = (\<lambda>n. if n = str then Some d else None) \<rparr> \<rparr>,
             documentCharacterIndex = i \<rparr> = Some site \<and>
         \<not> contains_extended (unquotedReferenceSpan site) i"
    by (auto simp: getReferenceSiteInfo_def quotedName_def contains_extended_def
          afterEndIndex_def)
qed

theorem getReferenceSiteInfo_span_outside_cursor_witness:
  "getReferenceSiteInfo True (exampleContext exampleParameters 50) =
     Some \<lparr> referenceKind = referenceSite,
            unquotedReferenceSpan = \<lparr> startIndex = 51, spanLength = 8 \<rparr>,
            referenceDocument = exampleParameters,
            siteDefinition = ''location: string'',
            definitionDocument = exampleTemplate \<rparr> \<and>
   (\<exists>pv \<in> set (parameterValueDefinitions exampleParameters).
       contains_extended (span (nameValue pv)) 50 \<and>
       \<lparr> startIndex = 51, spanLength = 8 \<rparr> = unquotedSpan (nameValue pv)) \<and>
   \<not> contains_extended \<lparr> startIndex = 51, spanLength = 8 \<rparr> 50"
proof -
  have s: "getReferenceSiteInfo True (exampleContext exampleParameters 50) =
     Some \<lparr> referenceKind = referenceSite,
            unquotedReferenceSpan = \<lparr> startIndex = 51, spanLength = 8 \<rparr>,
            referenceDocument = exampleParameters,
            siteDefinition = ''location: string'',
            definitionDocument = exampleTemplate \<rparr>"
    by (simp add: getReferenceSiteInfo_def example_defs)
  from getReferenceSiteInfo_span_outside_cursor [where b = True, THEN conjunct1, rule_format, OF s] s
  show ?thesis by (simp add: example_defs)
qed


section \<open>Properties of the snippet catalogue\<close>

lemma mapSet_fresh: "k \<notin> fst ` set m \<Longrightarrow> mapSet m k v = m @ [(k, v)]"
  by (induction m) auto

lemma buildMap_fresh:
  "distinct names \<Longrightarrow> set names \<inter> fst ` set m = {} \<Longrightarrow> set names \<subseteq> fst ` set snippets \<Longrightarrow>
   buildMap snippets names m =
     m @ map (\<lambda>n. (n, fst (convertSnippet n (the (map_of snippets n))))) names"
proof (induction names arbitrary: m)
  case Nil
  then show ?case by simp
next
  case (Cons n names)
  from Cons.prems obtain r where r: "map_of snippets n = Some r"
    by (cases "map_of snippets n") (auto simp: map_of_eq_None_iff)
  let ?m = "m @ [(n, fst (convertSnippet n r))]"
  from Cons.prems have fresh: "n \<notin> fst ` set m" by auto
  from Cons.prems have "set names \<inter> fst ` set ?m = {}" by auto
  with Cons.prems have "buildMap snippets names ?m =
     ?m @ map (\<lambda>n. (n, fst (convertSnippet n (the (map_of snippets n))))) names"
    by (intro Cons.IH) auto
  with r fresh show ?case by (simp add: mapSet_fresh)
qed

lemma map_of_keys:
  "distinct (map fst xs) \<Longrightarrow> set ys \<subseteq> set xs \<Longrightarrow>
   map (\<lambda>n. (n, g n (the (map_of xs n)))) (filter P (map fst ys)) =
   map (\<lambda>(n, r). (n, g n r)) (filter (\<lambda>(n, r). P n) ys)"
  by (induction ys) (auto simp: map_of_eq_Some_iff [THEN iffD2])

lemma loadMap_distinct:
  assumes "distinct (map fst snippets)"
  shows "loadMap snippets =
     map (\<lambda>(n, r). (n, fst (convertSnippet n r)))
       (filter (\<lambda>(n, r). \<not> startsWith n ''$'') snippets)"
proof -
  let ?names = "filter (\<lambda>n. \<not> startsWith n ''$'') (map fst snippets)"
  from assms have "buildMap snippets ?names [] =
      [] @ map (\<lambda>n. (n, fst (convertSnippet n (the (map_of snippets n))))) ?names"
    by (intro buildMap_fresh) auto
  also from assms have "map (\<lambda>n. (n, fst (convertSnippet n (the (map_of snippets n))))) ?names =
     map (\<lambda>(n, r). (n, fst (convertSnippet n r)))
       (filter (\<lambda>(n, r). \<not> startsWith n ''$'') snippets)"
    by (intro map_of_keys) auto
  finally show ?thesis by (simp add: loadMap_def getOwnPropertyNames_def)
qed

lemma convertSnippet_fields:
  "fst (convertSnippet n r) =
     \<lparr> name = n, prefix = filePrefix r, insertText = joinLines (fileBody r),
       description = fileDescription r, snippetContext = fileContext r \<rparr>"
  by (simp add: convertSnippet_def Let_def)

lemma getMap_fresh:
  "snippetMap mgr = None \<Longrightarrow>
   getMap w mgr =
     (loaderResult w (snippetPath mgr) (fileReads mgr),
      mgr\<lparr> fileReads := Suc (fileReads mgr),
           snippetMap := (if isl (loaderResult w (snippetPath mgr) (fileReads mgr)) then None
                          else Some (fileReads mgr)) \<rparr>)"
  by (simp add: getMap_def getOrCachePromise_def loaderStart_def awaitSnippetMap_def
        promiseSettled_def Let_def)

lemma getMap_cached:
  "snippetMap mgr = Some p \<Longrightarrow>
   getMap w mgr =
     (loaderResult w (snippetPath mgr) p,
      if isl (loaderResult w (snippetPath mgr) p) then mgr\<lparr> snippetMap := None \<rparr> else mgr)"
  by (simp add: getMap_def getOrCachePromise_def awaitSnippetMap_def promiseSettled_def Let_def)

lemma getSnippets_state: "snd (getSnippets w c mgr) = snd (getMap w mgr)"
  by (simp add: getSnippets_def split: prod.split sum.split)

lemma getSnippetsAsCompletionItems_state:
  "snd (getSnippetsAsCompletionItems w c sp t q mgr) = snd (getMap w mgr)"
  by (simp add: getSnippetsAsCompletionItems_def callWithTelemetryAndErrorHandling_def
        completionItemsCallback_def split: prod.split sum.split option.split)

lemma queryState_getMap: "queryState w q mgr = snd (getMap w mgr)"
  by (cases q) (simp_all add: queryState_def getSnippets_state getSnippetsAsCompletionItems_state)

lemma loadMap_exampleFile:
  "loadMap exampleFile =
     [(''arm-vnet'', armVnetSnippet),
      (''new-parameter-value'',
       \<lparr> name = ''new-parameter-value'', prefix = dq @ ''new-value'',
         insertText = ''{'' @ [CHR 0x0A] @ ''  null'' @ [CHR 0x0A] @ ''}'',
         description = ''Value'', snippetContext = Some ''parameterValues'' \<rparr>)]"
  by (simp add: loadMap_def getOwnPropertyNames_def exampleFile_def startsWith_def
        convertSnippet_fields armVnetSnippet_def)

lemma getMap_example:
  "getMap (exampleWorld 0 exampleFile) freshManager =
     (Inr (loadMap exampleFile), freshManager\<lparr> fileReads := 1, snippetMap := Some 0 \<rparr>)"
  by (simp add: getMap_fresh freshManager_def loaderResult_def exampleWorld_def)

text \<open>
  C5. For a loaded catalogue \<open>m\<close>, \<open>getSnippets\<close> returns exactly the entries of \<open>m\<close>
  whose context tag equals the requested tag, in the order of the catalogue; when no entry
  has the tag, it returns the empty list and no error.
\<close>

theorem getSnippets_exact_context:
  "getMap w mgr = (Inr m, mgr') \<longrightarrow>
     fst (getSnippets w contextTag mgr) =
       Inr (filter (\<lambda>s. snippetContext s = Some contextTag) (map snd m)) \<and>
     ((\<forall>s \<in> set (map snd m). snippetContext s \<noteq> Some contextTag) \<longrightarrow>
        fst (getSnippets w contextTag mgr) = Inr [])"
proof (intro impI conjI)
  assume g: "getMap w mgr = (Inr m, mgr')"
  then show eq: "fst (getSnippets w contextTag mgr) =
       Inr (filter (\<lambda>s. snippetContext s = Some contextTag) (map snd m))"
    by (simp add: getSnippets_def doesSnippetSupportContext_def)
  assume "\<forall>s \<in> set (map snd m). snippetContext s \<noteq> Some contextTag"
  then have "filter (\<lambda>s. snippetContext s = Some contextTag) (map snd m) = []"
    by (auto simp: filter_empty_conv)
  with eq show "fst (getSnippets w contextTag mgr) = Inr []" by simp
qed

theorem getSnippets_exact_context_witness:
  "fst (getSnippets (exampleWorld 0 exampleFile) ''resources'' freshManager) = Inr [armVnetSnippet] \<and>
   fst (getSnippets (exampleWorld 0 exampleFile) ''doesNotExist'' freshManager) = Inr []"
proof -
  note g = getMap_example [unfolded loadMap_exampleFile]
  have a: "fst (getSnippets (exampleWorld 0 exampleFile) ''resources'' freshManager) = Inr [armVnetSnippet]"
    using getSnippets_exact_context [THEN mp, OF g, of "''resources''"]
    by (simp add: armVnetSnippet_def)
  have b: "fst (getSnippets (exampleWorld 0 exampleFile) ''doesNotExist'' freshManager) = Inr []"
    using getSnippets_exact_context [THEN mp, OF g, of "''doesNotExist''", THEN conjunct2]
    by (simp add: armVnetSnippet_def)
  from a b show ?thesis by simp
qed

lemma joinLines_concat:
  "joinLines ls =
     (if ls = [] then [] else concat (map (\<lambda>l. l @ [CHR 0x0A]) (butlast ls)) @ last ls)"
  by (induction ls rule: joinLines.induct) simp_all

lemma startsWith_append: "startsWith s p \<longleftrightarrow> (\<exists>rest. s = p @ rest)"
  unfolding startsWith_def
  by (metis append_eq_conv_conj append_take_drop_id)

lemma startsWith_dollar: "startsWith n ''$'' \<longleftrightarrow> n \<noteq> [] \<and> hd n = CHR ''$''"
  by (cases n) (simp_all add: startsWith_def)

text \<open>
  C6. The load procedure skips every key whose first character is the dollar sign and
  converts each remaining record, in order, into a snippet that keeps the key as name and
  the record's prefix, description and context, and whose insert text is the record's body
  lines joined with newline characters: every line but the last followed by a newline,
  then the last line. For the one-entry file of the spec's example, \<open>getSnippets\<close> with
  the tag resources yields the one snippet \<open>arm-vnet\<close> whose insert text is the single
  body line, and with the tag parameterValues the empty list.
\<close>

theorem loadMap_converts_records:
  "(distinct (map fst snippets) \<longrightarrow>
      loadMap snippets =
        map (\<lambda>(n, r). (n,
     \<lparr> name = n, prefix = filePrefix r,
       insertText = (if fileBody r = [] then []
                    else concat (map (\<lambda>l. l @ [CHR 0x0A]) (butlast (fileBody r))) @
                         last (fileBody r)),
       description = fileDescription r, snippetContext = fileContext r \<rparr>))
          (filter (\<lambda>(n, r). \<not> (n \<noteq> [] \<and> hd n = CHR ''$'')) snippets)) \<and>
   fst (convertSnippet n r) =
     \<lparr> name = n, prefix = filePrefix r,
       insertText = (if fileBody r = [] then []
                    else concat (map (\<lambda>l. l @ [CHR 0x0A]) (butlast (fileBody r))) @
                         last (fileBody r)),
       description = fileDescription r, snippetContext = fileContext r \<rparr> \<and>
   (snippetMap mgr = None \<and>
    readUtf8FileWithBom w (fileReads mgr) (snippetPath mgr) = Inr content \<and>
    jsonParse w (stripJsonComments w content) = Inr armVnetFile \<longrightarrow>
      fst (getSnippets w ''resources'' mgr) =
        Inr [\<lparr> name = ''arm-vnet'', prefix = ''vnet'', insertText = armVnetBodyLine,
               description = ''VNet'', snippetContext = Some ''resources'' \<rparr>] \<and>
      fst (getSnippets w ''parameterValues'' mgr) = Inr [])"
proof (intro conjI impI)
  assume "distinct (map fst snippets)"
  then show "loadMap snippets =
        map (\<lambda>(n, r). (n,
     \<lparr> name = n, prefix = filePrefix r,
       insertText = (if fileBody r = [] then []
                    else concat (map (\<lambda>l. l @ [CHR 0x0A]) (butlast (fileBody r))) @
                         last (fileBody r)),
       description = fileDescription r, snippetContext = fileContext r \<rparr>))
          (filter (\<lambda>(n, r). \<not> (n \<noteq> [] \<and> hd n = CHR ''$'')) snippets)"
    by (simp add: loadMap_distinct convertSnippet_fields joinLines_concat startsWith_dollar)
next
  show "fst (convertSnippet n r) =
     \<lparr> name = n, prefix = filePrefix r,
       insertText = (if fileBody r = [] then []
                    else concat (map (\<lambda>l. l @ [CHR 0x0A]) (butlast (fileBody r))) @
                         last (fileBody r)),
       description = fileDescription r, snippetContext = fileContext r \<rparr>"
    by (simp add: convertSnippet_fields joinLines_concat)
next
  assume h: "snippetMap mgr = None \<and>
    readUtf8FileWithBom w (fileReads mgr) (snippetPath mgr) = Inr content \<and>
    jsonParse w (stripJsonComments w content) = Inr armVnetFile"
  have l: "loadMap armVnetFile =
      [(''arm-vnet'', \<lparr> name = ''arm-vnet'', prefix = ''vnet'', insertText = armVnetBodyLine,
               description = ''VNet'', snippetContext = Some ''resources'' \<rparr>)]"
    by (simp add: loadMap_def getOwnPropertyNames_def armVnetFile_def startsWith_def
          convertSnippet_fields)
  from h have g: "fst (getMap w mgr) = Inr (loadMap armVnetFile)"
    by (simp add: getMap_fresh loaderResult_def)
  then show "fst (getSnippets w ''resources'' mgr) =
        Inr [\<lparr> name = ''arm-vnet'', prefix = ''vnet'', insertText = armVnetBodyLine,
               description = ''VNet'', snippetContext = Some ''resources'' \<rparr>]"
    by (cases "getMap w mgr") (simp add: getSnippets_def l doesSnippetSupportContext_def)
  from g show "fst (getSnippets w ''parameterValues'' mgr) = Inr []"
    by (cases "getMap w mgr") (simp add: getSnippets_def l doesSnippetSupportContext_def)
qed

theorem loadMap_converts_records_witness:
  "distinct (map fst exampleFile) \<and>
   map fst (loadMap exampleFile) = [''arm-vnet'', ''new-parameter-value''] \<and>
   map (insertText \<circ> snd) (loadMap exampleFile) =
     [armVnetBodyLine, ''{'' @ [CHR 0x0A] @ ''  null'' @ [CHR 0x0A] @ ''}''] \<and>
   fst (getSnippets (exampleWorld 0 armVnetFile) ''resources'' freshManager) = Inr [armVnetSnippet] \<and>
   fst (getSnippets (exampleWorld 0 armVnetFile) ''parameterValues'' freshManager) = Inr []"
proof -
  have d: "distinct (map fst exampleFile)"
    by (simp add: exampleFile_def)
  have a: "map fst (loadMap exampleFile) = [''arm-vnet'', ''new-parameter-value''] \<and>
     map (insertText \<circ> snd) (loadMap exampleFile) =
       [armVnetBodyLine, ''{'' @ [CHR 0x0A] @ ''  null'' @ [CHR 0x0A] @ ''}'']"
    using loadMap_converts_records [of exampleFile, THEN conjunct1, THEN mp, OF d]
    by (simp add: exampleFile_def)
  have h: "snippetMap freshManager = None \<and>
    readUtf8FileWithBom (exampleWorld 0 armVnetFile) (fileReads freshManager) (snippetPath freshManager)
      = Inr ''snippets'' \<and>
    jsonParse (exampleWorld 0 armVnetFile) (stripJsonComments (exampleWorld 0 armVnetFile) ''snippets'')
      = Inr armVnetFile"
    by (simp add: freshManager_def exampleWorld_def)
  from d a loadMap_converts_records [THEN conjunct2, THEN conjunct2, THEN mp, OF h]
  show ?thesis by (simp add: armVnetSnippet_def)
qed

text \<open>
  C8. \<open>getSnippetsAsCompletionItems\<close> returns a list on every input: when its callback
  fails, in particular when the catalogue cannot be loaded, the result is the empty
  list; when the callback succeeds, the result is the callback's list.
\<close>

theorem getSnippetsAsCompletionItems_swallows_failure:
  "(fst (completionItemsCallback w contextTag sp triggerCharacter addDoubleQuotes mgr) = Inl e
      \<longrightarrow> fst (getSnippetsAsCompletionItems w contextTag sp triggerCharacter addDoubleQuotes mgr) = []) \<and>
   (fst (getMap w mgr) = Inl e
      \<longrightarrow> fst (getSnippetsAsCompletionItems w contextTag sp triggerCharacter addDoubleQuotes mgr) = []) \<and>
   (fst (completionItemsCallback w contextTag sp triggerCharacter addDoubleQuotes mgr) = Inr items
      \<longrightarrow> fst (getSnippetsAsCompletionItems w contextTag sp triggerCharacter addDoubleQuotes mgr) = items)"
  by (cases "getMap w mgr")
     (auto simp: getSnippetsAsCompletionItems_def callWithTelemetryAndErrorHandling_def
        completionItemsCallback_def split: sum.splits)

theorem getSnippetsAsCompletionItems_swallows_failure_witness:
  "fst (getMap (exampleWorld 1 exampleFile) freshManager) = Inl ReadFailed \<and>
   fst (getSnippetsAsCompletionItems (exampleWorld 1 exampleFile) ''resources''
          \<lparr> startIndex = 3, spanLength = 0 \<rparr> None False freshManager) = []"
proof -
  have f: "fst (getMap (exampleWorld 1 exampleFile) freshManager) = Inl ReadFailed"
    by (simp add: getMap_fresh freshManager_def loaderResult_def exampleWorld_def)
  from f getSnippetsAsCompletionItems_swallows_failure [THEN conjunct2, THEN conjunct1, THEN mp, OF f]
  show ?thesis by simp
qed

lemma snippetItems_fields:
  "snippetItems w contextTag sp addDoubleQuotes m =
     map (\<lambda>(n, s).
            \<lparr> label = ''{'' @ (if addDoubleQuotes \<and> \<not> startsWith (prefix s) dq
                               then dq @ prefix s @ dq else prefix s) @ ''}'',
              snippetName = n,
              detail = description s @ '' ('' @ extensionName w @ '')'',
              itemInsertText = insertText s,
              itemSpan = sp,
              kind = Snippet,
              priority = low \<rparr>)
       (filter (\<lambda>(n, s). snippetContext s = Some contextTag) m)"
  by (induction m) (auto simp: doesSnippetSupportContext_def Let_def)

text \<open>
  C2. The label of a completion item is not the snippet's prefix: the prefix, quoted or
  not, is wrapped in curly braces. For the snippet with prefix \<open>vnet\<close> the label is
  \<open>{vnet}\<close>, and with quotes added the braces enclose the quoted prefix.
\<close>

theorem getSnippetsAsCompletionItems_label_in_braces:
  "map label (fst (getSnippetsAsCompletionItems (exampleWorld 0 exampleFile) ''resources''
          \<lparr> startIndex = 3, spanLength = 0 \<rparr> None False freshManager)) = [''{vnet}''] \<and>
   map label (fst (getSnippetsAsCompletionItems (exampleWorld 0 exampleFile) ''resources''
          \<lparr> startIndex = 3, spanLength = 0 \<rparr> None True freshManager)) = [''{'' @ dq @ ''vnet'' @ dq @ ''}''] \<and>
   map label (fst (getSnippetsAsCompletionItems (exampleWorld 0 exampleFile) ''parameterValues''
          \<lparr> startIndex = 3, spanLength = 0 \<rparr> None True freshManager)) = [''{'' @ dq @ ''new-value}''] \<and>
   ''{vnet}'' \<noteq> ''vnet''"
  by (simp add: getSnippetsAsCompletionItems_def callWithTelemetryAndErrorHandling_def
        completionItemsCallback_def getMap_example loadMap_exampleFile armVnetSnippet_def
        doesSnippetSupportContext_def startsWith_def dq_def)

lemma queryState_loaded:
  "snippetMap mgr = Some p \<Longrightarrow> \<not> isl (loaderResult w (snippetPath mgr) p) \<Longrightarrow>
   queryState w q mgr = mgr"
  by (simp add: queryState_getMap getMap_cached)

lemma queries_loaded:
  "snippetMap mgr = Some p \<Longrightarrow> \<not> isl (loaderResult w (snippetPath mgr) p) \<Longrightarrow>
   foldl (\<lambda>m q. queryState w q m) mgr qs = mgr"
  by (induction qs) (simp_all add: queryState_loaded)

lemma queries_fresh:
  assumes "snippetMap mgr = None"
    and "\<not> isl (loaderResult w (snippetPath mgr) (fileReads mgr))"
  shows "fileReads (foldl (\<lambda>m q. queryState w q m) mgr qs) =
     (if qs = [] then fileReads mgr else Suc (fileReads mgr))"
proof (cases qs)
  case Nil
  then show ?thesis by simp
next
  case (Cons q rest)
  let ?m = "mgr\<lparr> fileReads := Suc (fileReads mgr), snippetMap := Some (fileReads mgr) \<rparr>"
  from assms have s1: "queryState w q mgr = ?m"
    by (simp add: queryState_getMap getMap_fresh)
  from assms have "foldl (\<lambda>m q. queryState w q m) ?m rest = ?m"
    by (intro queries_loaded [where p = "fileReads mgr"]) simp_all
  with Cons s1 show ?thesis by simp
qed

text \<open>
  C3. The snippet file is read at most once. For a manager that has not loaded yet and a
  load that succeeds, two queries of either kind in a row perform one file read and the
  second sees the map of the first, and so does any longer sequence of queries; a manager
  that has loaded is left unchanged by a query, so it reads no more. When the load fails,
  the slot is empty after the first query, and the second query reads the file again and
  gets the outcome of that second read. Two queries that both start before the load has
  settled await the same promise, with one file read.
\<close>

theorem snippet_file_read_once:
  "(snippetMap mgr = None \<and> \<not> isl (loaderResult w (snippetPath mgr) (fileReads mgr)) \<longrightarrow>
      fileReads (queryState w q2 (queryState w q1 mgr)) = Suc (fileReads mgr) \<and>
      fst (getMap w (queryState w q1 mgr)) = fst (getMap w mgr) \<and>
      (\<forall>qs. fileReads (foldl (\<lambda>m q. queryState w q m) mgr qs) =
              (if qs = [] then fileReads mgr else Suc (fileReads mgr)))) \<and>
   (snippetMap mgr = Some p \<and> \<not> isl (loaderResult w (snippetPath mgr) p) \<longrightarrow>
      queryState w q1 mgr = mgr) \<and>
   (snippetMap mgr = None \<and> isl (loaderResult w (snippetPath mgr) (fileReads mgr)) \<longrightarrow>
      snippetMap (queryState w q1 mgr) = None \<and>
      fileReads (queryState w q1 mgr) = Suc (fileReads mgr) \<and>
      fileReads (queryState w q2 (queryState w q1 mgr)) = Suc (Suc (fileReads mgr)) \<and>
      fst (getMap w (queryState w q1 mgr)) =
        loaderResult w (snippetPath mgr) (Suc (fileReads mgr))) \<and>
   (snippetMap mgr = None \<longrightarrow>
      (let (p1, mgr1) = getOrCachePromise loaderStart mgr;
           (p2, mgr2) = getOrCachePromise loaderStart mgr1
       in p1 = p2 \<and> fileReads mgr2 = Suc (fileReads mgr)))"
proof (intro conjI impI allI)
  assume "snippetMap mgr = None"
  then show "let (p1, mgr1) = getOrCachePromise loaderStart mgr;
          (p2, mgr2) = getOrCachePromise loaderStart mgr1
      in p1 = p2 \<and> fileReads mgr2 = Suc (fileReads mgr)"
    by (simp add: getOrCachePromise_def loaderStart_def)
next
  assume "snippetMap mgr = Some p \<and> \<not> isl (loaderResult w (snippetPath mgr) p)"
  then show "queryState w q1 mgr = mgr"
    by (simp add: queryState_loaded)
next
  assume h: "snippetMap mgr = None \<and> \<not> isl (loaderResult w (snippetPath mgr) (fileReads mgr))"
  then have s1: "queryState w q1 mgr =
      mgr\<lparr> fileReads := Suc (fileReads mgr), snippetMap := Some (fileReads mgr) \<rparr>"
    by (simp add: queryState_getMap getMap_fresh)
  from h show "fileReads (queryState w q2 (queryState w q1 mgr)) = Suc (fileReads mgr)"
    by (simp add: s1) (simp add: queryState_getMap getMap_cached)
  from h show "fst (getMap w (queryState w q1 mgr)) = fst (getMap w mgr)"
    by (simp add: s1 getMap_cached) (simp add: getMap_fresh)
  fix qs
  from h show "fileReads (foldl (\<lambda>m q. queryState w q m) mgr qs) =
              (if qs = [] then fileReads mgr else Suc (fileReads mgr))"
    by (intro queries_fresh) simp_all
next
  assume h: "snippetMap mgr = None \<and> isl (loaderResult w (snippetPath mgr) (fileReads mgr))"
  then have s1: "queryState w q1 mgr =
      mgr\<lparr> fileReads := Suc (fileReads mgr), snippetMap := None \<rparr>"
    by (simp add: queryState_getMap getMap_fresh)
  show "snippetMap (queryState w q1 mgr) = None" by (simp add: s1)
  show "fileReads (queryState w q1 mgr) = Suc (fileReads mgr)" by (simp add: s1)
  show "fileReads (queryState w q2 (queryState w q1 mgr)) = Suc (Suc (fileReads mgr))"
    by (simp add: s1) (simp add: queryState_getMap getMap_fresh)
  show "fst (getMap w (queryState w q1 mgr)) =
          loaderResult w (snippetPath mgr) (Suc (fileReads mgr))"
    by (simp add: s1 getMap_fresh)
qed

theorem snippet_file_read_once_witness:
  "fileReads (queryState (exampleWorld 0 exampleFile)
       (GetSnippetsAsCompletionItems ''resources'' \<lparr> startIndex = 3, spanLength = 0 \<rparr> None True)
       (queryState (exampleWorld 0 exampleFile) (GetSnippets ''resources'') freshManager)) = 1 \<and>
   queryState (exampleWorld 0 exampleFile) (GetSnippets ''empty'')
       (freshManager\<lparr> snippetMap := Some 0, fileReads := 1 \<rparr>) =
     freshManager\<lparr> snippetMap := Some 0, fileReads := 1 \<rparr> \<and>
   fst (getMap (exampleWorld 1 exampleFile) freshManager) = Inl ReadFailed \<and>
   fileReads (queryState (exampleWorld 1 exampleFile) (GetSnippets ''resources'')
       (queryState (exampleWorld 1 exampleFile) (GetSnippets ''resources'') freshManager)) = 2 \<and>
   fst (getMap (exampleWorld 1 exampleFile)
       (queryState (exampleWorld 1 exampleFile) (GetSnippets ''resources'') freshManager)) =
     Inr (loadMap exampleFile) \<and>
   getOrCachePromise loaderStart freshManager =
     (0, freshManager\<lparr> fileReads := 1, snippetMap := Some 0 \<rparr>) \<and>
   getOrCachePromise loaderStart (freshManager\<lparr> fileReads := 1, snippetMap := Some 0 \<rparr>) =
     (0, freshManager\<lparr> fileReads := 1, snippetMap := Some 0 \<rparr>)"
proof -
  let ?loaded = "freshManager\<lparr> snippetMap := Some 0, fileReads := 1 \<rparr>"
  have ok: "snippetMap freshManager = None \<and>
      \<not> isl (loaderResult (exampleWorld 0 exampleFile) (snippetPath freshManager)
                     (fileReads freshManager))"
    by (simp add: loaderResult_def exampleWorld_def freshManager_def)
  have loaded: "snippetMap ?loaded = Some 0 \<and>
      \<not> isl (loaderResult (exampleWorld 0 exampleFile) (snippetPath ?loaded) 0)"
    by (simp add: loaderResult_def exampleWorld_def freshManager_def)
  have failed: "snippetMap freshManager = None \<and>
      isl (loaderResult (exampleWorld 1 exampleFile) (snippetPath freshManager)
                     (fileReads freshManager))"
    by (simp add: loaderResult_def exampleWorld_def freshManager_def)
  have fresh: "snippetMap freshManager = None" by (simp add: freshManager_def)
  have f: "fst (getMap (exampleWorld 1 exampleFile) freshManager) = Inl ReadFailed"
    by (simp add: getMap_fresh freshManager_def loaderResult_def exampleWorld_def)
  note t = snippet_file_read_once
  from t [THEN conjunct1, THEN mp, OF ok,
      of "GetSnippetsAsCompletionItems ''resources'' \<lparr> startIndex = 3, spanLength = 0 \<rparr> None True"
         "GetSnippets ''resources''"]
    t [THEN conjunct2, THEN conjunct1, THEN mp, OF loaded, of "GetSnippets ''empty''"]
    t [THEN conjunct2, THEN conjunct2, THEN conjunct1, THEN mp, OF failed,
      of "GetSnippets ''resources''" "GetSnippets ''resources''"]
    t [THEN conjunct2, THEN conjunct2, THEN conjunct2, THEN mp, OF fresh] f
  show ?thesis
    by (simp add: freshManager_def loaderResult_def exampleWorld_def getOrCachePromise_def
          loaderStart_def)
qed


end
